theory Spec2Isabelle
  imports Main
begin

section \<open>The connection dialog of plugin-connection-preconfigured\<close>

text \<open>
  A shallow embedding of \<^verbatim>\<open>ConnectionController.ts\<close>. The controller is a record of
  its fields; every method is a function from the state before to the state after. The
  calls the controller makes on its injected collaborators are appended to the field
  \<open>calls\<close>, in order, so that "was the connection opener invoked" is a property of the
  state. What a collaborator answers (a value, or a thrown one) is an argument of the
  function that models the code running after the \<^verbatim>\<open>await\<close>.
\<close>

subsection \<open>Data\<close>

text \<open>The enum \<^verbatim>\<open>ConnectionStep { DBSource, Connection }\<close>.\<close>

datatype ConnectionStep = Step_DBSource | Step_Connection

text \<open>
  The types below are declared in \<^verbatim>\<open>@cloudbeaver/core-app\<close> and
  \<^verbatim>\<open>@cloudbeaver/core-sdk\<close>; the controller reads the fields listed here.
  \<open>source_id\<close> is the property \<^verbatim>\<open>id\<close> of a source.
\<close>

record DBSource =
  source_id :: string
  driverId :: string

text \<open>\<open>anonymousAccess\<close> is the truth value the code tests (a missing flag is falsy).\<close>

record DBDriver =
  defaultAuthModel :: string
  anonymousAccess :: bool

datatype DatabaseAuthModel = DatabaseAuthModel string

text \<open>
  \<^verbatim>\<open>ConnectionConfig\<close>: the three properties the controller writes, and
  \<open>otherFields\<close> for every other property an object of that type may carry (name, host,
  port, ...), by property name.
\<close>

record ConnectionConfig =
  dataSourceId :: "string option"
  authModelId :: "string option"
  credentials :: "string \<rightharpoonup> string"
  otherFields :: "string \<rightharpoonup> string"

text \<open>\<open>gql_hasDetails\<close> is what the method \<^verbatim>\<open>hasDetails()\<close> of the error answers.\<close>

record GQLError =
  errorText :: string
  gql_hasDetails :: bool

text \<open>
  A thrown value: an instance of \<^verbatim>\<open>GQLError\<close>, the \<^verbatim>\<open>TypeError\<close> of
  JavaScript (reading a property of \<^verbatim>\<open>undefined\<close>, calling a non-function), or any
  other error.
\<close>

datatype thrown = GQL GQLError | TypeError | OtherError string

record ConnectionInfo =
  conn_name :: string

type_synonym callback = nat

text \<open>The calls made on the collaborators.\<close>

datatype call =
    LogInfo string
  | LogException thrown string
  | OpenConnectionAsync ConnectionConfig
  | AuthModelsLoad string
  | SourcesLoadAll
  | DriversLoadAll
  | OpenErrorDetailsDialog GQLError
  | OnClose callback

text \<open>
  The fields of the class. \<open>dbSources\<close> and \<open>dbDrivers\<close> are the getters of the same
  name: the data held by the two resources.
\<close>

record ConnectionController =
  step :: ConnectionStep
  isLoading :: bool
  isConnecting :: bool
  dbSource :: "DBSource option"
  authModel :: "DatabaseAuthModel option"
  config :: ConnectionConfig
  hasDetails :: bool
  responseMessage :: "string option"
  exception :: "GQLError option"
  onClose :: "callback option"
  isDistructed :: bool
  dbSources :: "DBSource list"
  dbDrivers :: "string \<rightharpoonup> DBDriver"
  calls :: "call list"

text \<open>The field initialisers of the class, over the data the resources hold.\<close>

definition new_controller :: "DBSource list \<Rightarrow> (string \<rightharpoonup> DBDriver) \<Rightarrow> ConnectionController" where
  "new_controller srcs drvs =
     \<lparr> step = Step_DBSource, isLoading = True, isConnecting = False, dbSource = None,
       authModel = None,
       config = \<lparr> dataSourceId = None, authModelId = None, credentials = Map.empty,
                  otherFields = Map.empty \<rparr>,
       hasDetails = False, responseMessage = None, exception = None, onClose = None,
       isDistructed = False, dbSources = srcs, dbDrivers = drvs, calls = [] \<rparr>"

subsection \<open>JavaScript property reads\<close>

text \<open>
  \<^verbatim>\<open>obj.f\<close> throws a TypeError when \<^verbatim>\<open>obj\<close> is undefined or null;
  \<^verbatim>\<open>obj?.f\<close> is undefined then.
\<close>

definition read_prop :: "'a option \<Rightarrow> ('a \<Rightarrow> 'b) \<Rightarrow> thrown + 'b" where
  "read_prop obj f = (case obj of None \<Rightarrow> Inl TypeError | Some x \<Rightarrow> Inr (f x))"

definition read_opt :: "'a option \<Rightarrow> ('a \<Rightarrow> 'b) \<Rightarrow> 'b option" where
  "read_opt obj f = (case obj of None \<Rightarrow> None | Some x \<Rightarrow> Some (f x))"

text \<open>Sequencing: a thrown value ends the evaluation.\<close>

definition and_then :: "thrown + 'a \<Rightarrow> ('a \<Rightarrow> thrown + 'b) \<Rightarrow> thrown + 'b" where
  "and_then r f = (case r of Inl e \<Rightarrow> Inl e | Inr x \<Rightarrow> f x)"

definition invoke :: "call \<Rightarrow> ConnectionController \<Rightarrow> ConnectionController" where
  "invoke c s = s\<lparr>calls := calls s @ [c]\<rparr>"

subsection \<open>Getters and private helpers\<close>

text \<open>
  \<^verbatim>\<open>get dbDriver() { if (!this.dbSource) return undefined;
    return this.dbDrivers.get(this.dbSource.driverId); }\<close>
\<close>

definition dbDriver :: "ConnectionController \<Rightarrow> thrown + DBDriver option" where
  "dbDriver s =
     (if dbSource s = None then Inr None
      else and_then (read_prop (dbSource s) driverId) (\<lambda>d. Inr (dbDrivers s d)))"

definition getConnectionConfig :: "ConnectionController \<Rightarrow> ConnectionConfig" where
  "getConnectionConfig s =
     \<lparr> dataSourceId = dataSourceId (config s),
       authModelId = authModelId (config s),
       credentials = credentials (config s),
       otherFields = Map.empty \<rparr>"

text \<open>
  \<^verbatim>\<open>this.config.dataSourceId = this.dbSource?.id;
  this.config.authModelId = this.dbDriver?.defaultAuthModel;
  this.config.credentials = {};\<close>
  The object \<^verbatim>\<open>config\<close> is updated in place: its other properties stay.
\<close>

definition setDBSourceDefaults :: "ConnectionController \<Rightarrow> thrown + ConnectionController" where
  "setDBSourceDefaults s =
     (let s1 = s\<lparr>config := (config s)\<lparr>dataSourceId := read_opt (dbSource s) source_id\<rparr>\<rparr>
      in and_then (dbDriver s1) (\<lambda>d.
           let s2 = s1\<lparr>config := (config s1)\<lparr>authModelId := read_opt d defaultAuthModel\<rparr>\<rparr>
           in Inr (s2\<lparr>config := (config s2)\<lparr>credentials := Map.empty\<rparr>\<rparr>)))"

definition clearError :: "ConnectionController \<Rightarrow> ConnectionController" where
  "clearError s = s\<lparr>responseMessage := None, hasDetails := False, exception := None\<rparr>"

text \<open>
  \<^verbatim>\<open>if (exception instanceof GQLError && !this.isDistructed) { ... }
  else { this.notificationService.logException(exception, message); }\<close>
\<close>

definition showError :: "thrown \<Rightarrow> string \<Rightarrow> ConnectionController \<Rightarrow> ConnectionController" where
  "showError exn message s =
     (case exn of
        GQL g \<Rightarrow>
          (if \<not> isDistructed s
           then s\<lparr>responseMessage := Some (errorText g), hasDetails := gql_hasDetails g,
                  exception := Some g\<rparr>
           else invoke (LogException exn message) s)
      | _ \<Rightarrow> invoke (LogException exn message) s)"

subsection \<open>Lifecycle and navigation\<close>

text \<open>
  \<^verbatim>\<open>init\<close> stores the callback and starts \<^verbatim>\<open>loadDBSources\<close>, which runs up to
  its first \<^verbatim>\<open>await\<close>: the call of \<^verbatim>\<open>templateDataSourceListResource.loadAll()\<close>.
\<close>

definition loadDBSources_start :: "ConnectionController \<Rightarrow> ConnectionController" where
  "loadDBSources_start s = invoke SourcesLoadAll s"

definition init :: "callback \<Rightarrow> ConnectionController \<Rightarrow> ConnectionController" where
  "init cb s = loadDBSources_start (s\<lparr>onClose := Some cb\<rparr>)"

text \<open>
  The source list has settled: on success the resource holds the list and the driver
  registry is asked; a thrown value goes to the catch block, then the finally block.
\<close>

definition loadDBSources_sources ::
  "thrown + DBSource list \<Rightarrow> ConnectionController \<Rightarrow> bool \<times> ConnectionController" where
  "loadDBSources_sources r s =
     (case r of
        Inr srcs \<Rightarrow> (True, invoke DriversLoadAll (s\<lparr>dbSources := srcs\<rparr>))
      | Inl e \<Rightarrow>
          (False, (invoke (LogException e ''Can't load database sources'') s)
                    \<lparr>isLoading := False\<rparr>))"

definition loadDBSources_drivers ::
  "thrown + (string \<rightharpoonup> DBDriver) \<Rightarrow> ConnectionController \<Rightarrow> ConnectionController" where
  "loadDBSources_drivers r s =
     (case r of
        Inr drvs \<Rightarrow> s\<lparr>dbDrivers := drvs, isLoading := False\<rparr>
      | Inl e \<Rightarrow>
          (invoke (LogException e ''Can't load database sources'') s)\<lparr>isLoading := False\<rparr>)"

text \<open>\<^verbatim>\<open>loadDBSources\<close> run to its end, given what the two resources answer.\<close>

definition loadDBSources ::
  "thrown + DBSource list \<Rightarrow> thrown + (string \<rightharpoonup> DBDriver) \<Rightarrow>
   ConnectionController \<Rightarrow> ConnectionController" where
  "loadDBSources r1 r2 s =
     (case loadDBSources_sources r1 (loadDBSources_start s) of
        (True, s1) \<Rightarrow> loadDBSources_drivers r2 s1
      | (False, s1) \<Rightarrow> s1)"

definition destruct :: "ConnectionController \<Rightarrow> ConnectionController" where
  "destruct s = s\<lparr>isDistructed := True\<rparr>"

definition onStep :: "ConnectionStep \<Rightarrow> ConnectionController \<Rightarrow> ConnectionController" where
  "onStep st s = clearError (s\<lparr>step := st\<rparr>)"

definition onShowDetails :: "ConnectionController \<Rightarrow> ConnectionController" where
  "onShowDetails s =
     (case exception s of
        Some g \<Rightarrow> invoke (OpenErrorDetailsDialog g) s
      | None \<Rightarrow> s)"

subsection \<open>Connecting\<close>

text \<open>
  \<^verbatim>\<open>onConnect\<close> up to its \<^verbatim>\<open>await\<close>: the flag, the cleared error, and the call of
  the connection opener with \<^verbatim>\<open>getConnectionConfig()\<close>.
\<close>

definition onConnect_start :: "ConnectionController \<Rightarrow> ConnectionController" where
  "onConnect_start s =
     (let s1 = clearError (s\<lparr>isConnecting := True\<rparr>)
      in invoke (OpenConnectionAsync (getConnectionConfig s1)) s1)"

text \<open>
  \<^verbatim>\<open>this.onClose()\<close> inside the try block: calling a callback that was never stored
  throws a TypeError, which the catch block receives.
\<close>

definition call_onClose :: "ConnectionController \<Rightarrow> thrown + ConnectionController" where
  "call_onClose s =
     (case onClose s of
        None \<Rightarrow> Inl TypeError
      | Some cb \<Rightarrow> Inr (invoke (OnClose cb) s))"

text \<open>
  The code after the \<^verbatim>\<open>await\<close>, once the opener has settled: the rest of the try
  block or the catch block, then the finally block.
\<close>

definition onConnect_settled ::
  "thrown + ConnectionInfo \<Rightarrow> ConnectionController \<Rightarrow> ConnectionController" where
  "onConnect_settled r s =
     (let s1 =
        (case r of
           Inr connection \<Rightarrow>
             (let s0 = invoke (LogInfo (''Connection '' @ conn_name connection @ '' established'')) s
              in case call_onClose s0 of
                   Inr s' \<Rightarrow> s'
                 | Inl e \<Rightarrow> showError e ''Failed to establish connection'' s0)
         | Inl e \<Rightarrow> showError e ''Failed to establish connection'' s)
      in s1\<lparr>isConnecting := False\<rparr>)"

text \<open>\<^verbatim>\<open>onConnect\<close> run to its end with nothing in between, given the opener.\<close>

definition onConnect ::
  "(ConnectionConfig \<Rightarrow> thrown + ConnectionInfo) \<Rightarrow> ConnectionController \<Rightarrow> ConnectionController" where
  "onConnect opener s =
     (let s1 = onConnect_start s
      in onConnect_settled (opener (getConnectionConfig s1)) s1)"

subsection \<open>Selecting a source\<close>

text \<open>How far an async function got: to its end, or to the await of the auth model.\<close>

datatype progress = Finished | AwaitingAuthModel string

text \<open>
  \<^verbatim>\<open>loadAuthModel\<close> up to its return or its \<^verbatim>\<open>await\<close>. The argument of
  \<^verbatim>\<open>load\<close> is evaluated inside the try block.
\<close>

definition loadAuthModel_start ::
  "ConnectionController \<Rightarrow> thrown + (progress \<times> ConnectionController)" where
  "loadAuthModel_start s =
     and_then (dbDriver s) (\<lambda>d1.
       if d1 = None then Inr (Finished, s)
       else and_then (and_then (dbDriver s) (\<lambda>d2. read_prop d2 anonymousAccess)) (\<lambda>anon.
         if anon then Inr (Finished, s)
         else
           (let s1 = s\<lparr>isLoading := True\<rparr>
            in case and_then (dbDriver s1) (\<lambda>d3. read_prop d3 defaultAuthModel) of
                 Inr m \<Rightarrow> Inr (AwaitingAuthModel m, invoke (AuthModelsLoad m) s1)
               | Inl e \<Rightarrow>
                   Inr (Finished,
                        (invoke (LogException e ''Can't load driver auth model'') s1)
                          \<lparr>isLoading := False\<rparr>))))"

text \<open>The auth-model resource has settled: the assignment or the catch block, then finally.\<close>

definition loadAuthModel_settled ::
  "thrown + DatabaseAuthModel \<Rightarrow> ConnectionController \<Rightarrow> ConnectionController" where
  "loadAuthModel_settled r s =
     (case r of
        Inr m \<Rightarrow> s\<lparr>authModel := Some m, isLoading := False\<rparr>
      | Inl e \<Rightarrow>
          (invoke (LogException e ''Can't load driver auth model'') s)\<lparr>isLoading := False\<rparr>)"

text \<open>
  \<^verbatim>\<open>onDBSourceSelect\<close> after \<^verbatim>\<open>await this.loadAuthModel()\<close>:
  \<^verbatim>\<open>this.clearError(); this.setDBSourceDefaults(); this.step = ConnectionStep.Connection;
  if (!this.authModel) { this.onConnect(); }\<close>
  The call of \<^verbatim>\<open>onConnect\<close> is not awaited: it runs up to its own await.
\<close>

definition onDBSourceSelect_rest :: "ConnectionController \<Rightarrow> thrown + ConnectionController" where
  "onDBSourceSelect_rest s =
     and_then (setDBSourceDefaults (clearError s)) (\<lambda>s1.
       let s2 = s1\<lparr>step := Step_Connection\<rparr>
       in if authModel s2 = None then Inr (onConnect_start s2) else Inr s2)"

text \<open>
  \<^verbatim>\<open>this.dbSource = this.dbSources.find(dbSource => dbSource.id === sourceId)!;\<close>
  The postfix \<^verbatim>\<open>!\<close> is a compile-time assertion and is erased: the field receives what
  \<^verbatim>\<open>find\<close> returns, undefined when no source has the id. When
  \<^verbatim>\<open>loadAuthModel\<close> returns without awaiting the resource, the rest of the function
  follows with no other handler in between.
\<close>

definition onDBSourceSelect_start ::
  "string \<Rightarrow> ConnectionController \<Rightarrow> thrown + (progress \<times> ConnectionController)" where
  "onDBSourceSelect_start sourceId s =
     and_then (loadAuthModel_start (s\<lparr>dbSource := find (\<lambda>d. source_id d = sourceId) (dbSources s)\<rparr>))
       (\<lambda>(p, s1).
          case p of
            Finished \<Rightarrow> and_then (onDBSourceSelect_rest s1) (\<lambda>s2. Inr (Finished, s2))
          | AwaitingAuthModel m \<Rightarrow> Inr (AwaitingAuthModel m, s1))"

definition onDBSourceSelect_resumed ::
  "thrown + DatabaseAuthModel \<Rightarrow> ConnectionController \<Rightarrow> thrown + ConnectionController" where
  "onDBSourceSelect_resumed r s = onDBSourceSelect_rest (loadAuthModel_settled r s)"

text \<open>
  \<^verbatim>\<open>onDBSourceSelect\<close> run to its end with nothing in between, given the auth-model
  resource. \<open>Inl\<close> is a rejected promise, \<open>Inr\<close> the state when the promise resolves.
\<close>

definition onDBSourceSelect ::
  "(string \<Rightarrow> thrown + DatabaseAuthModel) \<Rightarrow> string \<Rightarrow> ConnectionController \<Rightarrow>
   thrown + ConnectionController" where
  "onDBSourceSelect load sourceId s =
     and_then (onDBSourceSelect_start sourceId s) (\<lambda>(p, s1).
       case p of
         Finished \<Rightarrow> Inr s1
       | AwaitingAuthModel m \<Rightarrow> onDBSourceSelect_resumed (load m) s1)"

subsection \<open>Handlers in any order\<close>

text \<open>
  What can run on a controller: a call of a public method (up to its first await), or the
  code after an await once the collaborator has settled. No handler keeps a local
  variable across an await, so the code after an await is a function of the answer and
  of the fields then. \<open>run\<close> allows a settled event at any time, also with no call
  pending: every order the event loop can produce is among the lists it accepts.
\<close>

datatype event =
    Init callback
  | SourcesSettled "thrown + DBSource list"
  | DriversSettled "thrown + (string \<rightharpoonup> DBDriver)"
  | Destruct
  | OnStep ConnectionStep
  | OnConnect
  | ConnectSettled "thrown + ConnectionInfo"
  | OnDBSourceSelect string
  | AuthModelSettled "thrown + DatabaseAuthModel"
  | OnShowDetails

fun fire :: "event \<Rightarrow> ConnectionController \<Rightarrow> thrown + ConnectionController" where
  "fire (Init cb) s = Inr (init cb s)"
| "fire (SourcesSettled r) s = Inr (snd (loadDBSources_sources r s))"
| "fire (DriversSettled r) s = Inr (loadDBSources_drivers r s)"
| "fire Destruct s = Inr (destruct s)"
| "fire (OnStep st) s = Inr (onStep st s)"
| "fire OnConnect s = Inr (onConnect_start s)"
| "fire (ConnectSettled r) s = Inr (onConnect_settled r s)"
| "fire (OnDBSourceSelect sourceId) s =
     and_then (onDBSourceSelect_start sourceId s) (\<lambda>(p, s1). Inr s1)"
| "fire (AuthModelSettled r) s = onDBSourceSelect_resumed r s"
| "fire OnShowDetails s = Inr (onShowDetails s)"

fun run :: "event list \<Rightarrow> ConnectionController \<Rightarrow> thrown + ConnectionController" where
  "run [] s = Inr s"
| "run (e # es) s = and_then (fire e s) (run es)"

subsection \<open>Observing the connection opener\<close>

text \<open>
  The configurations the connection opener has been called with, oldest first.
  \<^verbatim>\<open>onConnect\<close> is the only caller of the opener, and calls it every time it runs.
\<close>

definition opened :: "ConnectionController \<Rightarrow> ConnectionConfig list" where
  "opened s = concat (map (\<lambda>c. case c of OpenConnectionAsync cfg \<Rightarrow> [cfg] | _ \<Rightarrow> []) (calls s))"

section \<open>What the methods compute\<close>

text \<open>
  No property read of the controller throws: each is guarded by the test before it. So
  the getter, the defaults and the selection never end in a thrown value, and what they
  return can be written without the sum.
\<close>

lemma dbDriver_eq:
  "dbDriver s = Inr (Option.bind (dbSource s) (\<lambda>src. dbDrivers s (driverId src)))"
  by (cases "dbSource s") (simp_all add: dbDriver_def read_prop_def and_then_def)

lemma loadAuthModel_start_eq:
  "loadAuthModel_start s =
     Inr (case Option.bind (dbSource s) (\<lambda>src. dbDrivers s (driverId src)) of
            None \<Rightarrow> (Finished, s)
          | Some d \<Rightarrow>
              if anonymousAccess d then (Finished, s)
              else (AwaitingAuthModel (defaultAuthModel d),
                    invoke (AuthModelsLoad (defaultAuthModel d)) (s\<lparr>isLoading := True\<rparr>)))"
  by (simp add: loadAuthModel_start_def dbDriver_eq and_then_def read_prop_def Let_def
           split: option.splits)

lemma setDBSourceDefaults_eq:
  "setDBSourceDefaults s =
     Inr (s\<lparr>config := (config s)
            \<lparr>dataSourceId := map_option source_id (dbSource s),
             authModelId := map_option defaultAuthModel
                (Option.bind (dbSource s) (\<lambda>src. dbDrivers s (driverId src))),
             credentials := Map.empty\<rparr>\<rparr>)"
  by (simp add: setDBSourceDefaults_def dbDriver_eq and_then_def read_opt_def Let_def
           split: option.splits)

lemma onDBSourceSelect_rest_eq:
  "onDBSourceSelect_rest s =
     Inr (let s2 = s\<lparr>responseMessage := None, hasDetails := False, exception := None,
                     config := (config s)
                       \<lparr>dataSourceId := map_option source_id (dbSource s),
                        authModelId := map_option defaultAuthModel
                          (Option.bind (dbSource s) (\<lambda>src. dbDrivers s (driverId src))),
                        credentials := Map.empty\<rparr>,
                     step := Step_Connection\<rparr>
          in if authModel s = None then onConnect_start s2 else s2)"
  by (simp add: onDBSourceSelect_rest_def setDBSourceDefaults_eq and_then_def clearError_def
        Let_def)

lemma onDBSourceSelect_eq:
  "onDBSourceSelect load sourceId s =
     (let s0 = s\<lparr>dbSource := find (\<lambda>d. source_id d = sourceId) (dbSources s)\<rparr>
      in case Option.bind (dbSource s0) (\<lambda>src. dbDrivers s (driverId src)) of
           None \<Rightarrow> onDBSourceSelect_rest s0
         | Some d \<Rightarrow>
             if anonymousAccess d then onDBSourceSelect_rest s0
             else onDBSourceSelect_rest
                    (loadAuthModel_settled (load (defaultAuthModel d))
                       (invoke (AuthModelsLoad (defaultAuthModel d)) (s0\<lparr>isLoading := True\<rparr>))))"
  by (simp add: onDBSourceSelect_def onDBSourceSelect_start_def loadAuthModel_start_eq
        onDBSourceSelect_resumed_def and_then_def onDBSourceSelect_rest_eq Let_def
      split: option.splits)

lemma showError_fields:
  "isDistructed (showError e msg s) = isDistructed s"
  "authModel (showError e msg s) = authModel s"
  "config (showError e msg s) = config s"
  "isConnecting (showError e msg s) = isConnecting s"
  by (simp_all add: showError_def invoke_def split: thrown.splits)

lemma onConnect_start_fields:
  "isDistructed (onConnect_start s) = isDistructed s"
  "authModel (onConnect_start s) = authModel s"
  "config (onConnect_start s) = config s"
  "isConnecting (onConnect_start s) = True"
  "calls (onConnect_start s) = calls s @ [OpenConnectionAsync (getConnectionConfig s)]"
  by (simp_all add: onConnect_start_def clearError_def invoke_def getConnectionConfig_def Let_def)

lemma onConnect_settled_fields:
  "isDistructed (onConnect_settled r s) = isDistructed s"
  "authModel (onConnect_settled r s) = authModel s"
  "config (onConnect_settled r s) = config s"
  "isConnecting (onConnect_settled r s) = False"
  by (simp_all add: onConnect_settled_def call_onClose_def showError_fields invoke_def Let_def
        split: sum.splits option.splits)

lemma loadAuthModel_settled_fields:
  "isDistructed (loadAuthModel_settled r s) = isDistructed s"
  "authModel (loadAuthModel_settled r s) = (case r of Inr m \<Rightarrow> Some m | Inl e \<Rightarrow> authModel s)"
  "responseMessage (loadAuthModel_settled r s) = responseMessage s"
  "hasDetails (loadAuthModel_settled r s) = hasDetails s"
  "exception (loadAuthModel_settled r s) = exception s"
  by (simp_all add: loadAuthModel_settled_def invoke_def split: sum.splits)

lemma onDBSourceSelect_rest_fields:
  "\<exists>s'. onDBSourceSelect_rest s = Inr s' \<and> isDistructed s' = isDistructed s \<and>
     authModel s' = authModel s"
  by (simp add: onDBSourceSelect_rest_eq Let_def onConnect_start_fields)

lemma onDBSourceSelect_start_fields:
  "\<exists>p s'. onDBSourceSelect_start sourceId s = Inr (p, s') \<and> isDistructed s' = isDistructed s \<and>
     authModel s' = authModel s"
  by (simp add: onDBSourceSelect_start_def loadAuthModel_start_eq and_then_def
        onDBSourceSelect_rest_eq Let_def onConnect_start_fields invoke_def
      split: option.splits)

lemma fire_fields:
  "\<exists>s'. fire e s = Inr s' \<and> (isDistructed s \<longrightarrow> isDistructed s') \<and>
     (authModel s \<noteq> None \<longrightarrow> authModel s' \<noteq> None)"
proof (cases e)
  case (OnDBSourceSelect sourceId)
  obtain p s' where "onDBSourceSelect_start sourceId s = Inr (p, s')"
    "isDistructed s' = isDistructed s" "authModel s' = authModel s"
    using onDBSourceSelect_start_fields by blast
  with OnDBSourceSelect show ?thesis by (simp add: and_then_def)
next
  case (AuthModelSettled r)
  obtain s' where "onDBSourceSelect_rest (loadAuthModel_settled r s) = Inr s'"
    "isDistructed s' = isDistructed (loadAuthModel_settled r s)"
    "authModel s' = authModel (loadAuthModel_settled r s)"
    using onDBSourceSelect_rest_fields by blast
  with AuthModelSettled show ?thesis
    by (auto simp: onDBSourceSelect_resumed_def loadAuthModel_settled_fields split: sum.splits)
next
  case (SourcesSettled r)
  then show ?thesis
    by (simp add: loadDBSources_sources_def invoke_def split: sum.splits)
next
  case (DriversSettled r)
  then show ?thesis
    by (simp add: loadDBSources_drivers_def invoke_def split: sum.splits)
qed (simp_all add: init_def loadDBSources_start_def invoke_def destruct_def onStep_def
       clearError_def onConnect_start_fields onConnect_settled_fields onShowDetails_def
     split: option.splits)

lemma run_fields:
  "\<exists>s'. run evs s = Inr s' \<and> (isDistructed s \<longrightarrow> isDistructed s') \<and>
     (authModel s \<noteq> None \<longrightarrow> authModel s' \<noteq> None)"
proof (induction evs arbitrary: s)
  case Nil
  show ?case by simp
next
  case (Cons e evs)
  obtain s1 where s1: "fire e s = Inr s1" "isDistructed s \<longrightarrow> isDistructed s1"
    "authModel s \<noteq> None \<longrightarrow> authModel s1 \<noteq> None"
    using fire_fields by blast
  obtain s2 where s2: "run evs s1 = Inr s2" "isDistructed s1 \<longrightarrow> isDistructed s2"
    "authModel s1 \<noteq> None \<longrightarrow> authModel s2 \<noteq> None"
    using Cons.IH by blast
  from s1 s2 show ?case by (simp add: and_then_def)
qed

lemma onConnect_start_frame:
  "dbSource (onConnect_start s) = dbSource s"
  "dbDrivers (onConnect_start s) = dbDrivers s"
  "step (onConnect_start s) = step s"
  by (simp_all add: onConnect_start_def clearError_def invoke_def Let_def)

lemma onDBSourceSelect_rest_config:
  "\<exists>s'. onDBSourceSelect_rest s = Inr s' \<and> dbSource s' = dbSource s \<and>
     dbDrivers s' = dbDrivers s \<and>
     config s' = (config s)
       \<lparr>dataSourceId := map_option source_id (dbSource s),
        authModelId := map_option defaultAuthModel
          (Option.bind (dbSource s) (\<lambda>src. dbDrivers s (driverId src))),
        credentials := Map.empty\<rparr>"
proof (cases "authModel s")
  case None
  then show ?thesis
    by (simp add: onDBSourceSelect_rest_eq Let_def onConnect_start_fields
          onConnect_start_frame)
next
  case (Some a)
  then show ?thesis
    by (simp add: onDBSourceSelect_rest_eq Let_def)
qed

lemma loadAuthModel_settled_frame:
  "dbSource (loadAuthModel_settled r s) = dbSource s"
  "dbDrivers (loadAuthModel_settled r s) = dbDrivers s"
  "config (loadAuthModel_settled r s) = config s"
  by (simp_all add: loadAuthModel_settled_def invoke_def split: sum.splits)

lemma onDBSourceSelect_as_rest:
  "\<exists>x. onDBSourceSelect load sourceId s = onDBSourceSelect_rest x \<and>
     dbSource x = find (\<lambda>d. source_id d = sourceId) (dbSources s) \<and>
     dbDrivers x = dbDrivers s \<and> config x = config s"
proof (cases "Option.bind (find (\<lambda>d. source_id d = sourceId) (dbSources s))
                (\<lambda>src. dbDrivers s (driverId src))")
  case None
  then show ?thesis
    by (intro exI [of _ "s\<lparr>dbSource := find (\<lambda>d. source_id d = sourceId) (dbSources s)\<rparr>"])
       (simp add: onDBSourceSelect_eq Let_def)
next
  case (Some d)
  show ?thesis
  proof (cases "anonymousAccess d")
    case True
    with Some show ?thesis
      by (intro exI [of _ "s\<lparr>dbSource := find (\<lambda>d. source_id d = sourceId) (dbSources s)\<rparr>"])
         (simp add: onDBSourceSelect_eq Let_def)
  next
    case False
    with Some show ?thesis
      by (intro exI [of _ "loadAuthModel_settled (load (defaultAuthModel d))
                (invoke (AuthModelsLoad (defaultAuthModel d))
                   (s\<lparr>dbSource := find (\<lambda>d. source_id d = sourceId) (dbSources s),
                      isLoading := True\<rparr>))"])
         (simp add: onDBSourceSelect_eq Let_def loadAuthModel_settled_frame invoke_def)
  qed
qed

lemma find_source_id:
  "find (\<lambda>x. source_id x = sourceId) xs = Some src \<Longrightarrow> source_id src = sourceId"
  by (auto simp: find_Some_iff)

section \<open>Selecting a source\<close>

subsection \<open>A source with anonymous access\<close>

text \<open>
  Claim C1: selecting a loaded source whose driver has anonymous access loads no auth
  model and calls \<^verbatim>\<open>onConnect\<close>, whatever the controller did before. The code
  does so only while \<open>authModel\<close> is unset. Here the source pg1 (driver postgres, auth
  required) is selected first and its auth model basic is loaded; then the source h2
  (driver h2mem, anonymous access) is selected. The second selection loads no auth model,
  but \<open>authModel\<close> still holds basic, so \<^verbatim>\<open>if (!this.authModel)\<close> fails: the
  only call made on a collaborator in the two selections is the load of basic, the
  opener is never called and \<open>isConnecting\<close> stays false.
\<close>

theorem C1_anonymous_after_loaded_model:
  "and_then
     (onDBSourceSelect (\<lambda>m. Inr (DatabaseAuthModel m)) ''pg1''
        (new_controller
           [\<lparr>source_id = ''pg1'', driverId = ''postgres''\<rparr>,
            \<lparr>source_id = ''h2'', driverId = ''h2mem''\<rparr>]
           [''postgres'' \<mapsto> \<lparr>defaultAuthModel = ''basic'', anonymousAccess = False\<rparr>,
            ''h2mem'' \<mapsto> \<lparr>defaultAuthModel = ''native'', anonymousAccess = True\<rparr>]))
     (onDBSourceSelect (\<lambda>m. Inr (DatabaseAuthModel m)) ''h2'') =
   Inr \<lparr> step = Step_Connection, isLoading = False, isConnecting = False,
         dbSource = Some \<lparr>source_id = ''h2'', driverId = ''h2mem''\<rparr>,
         authModel = Some (DatabaseAuthModel ''basic''),
         config = \<lparr> dataSourceId = Some ''h2'', authModelId = Some ''native'',
                    credentials = Map.empty, otherFields = Map.empty \<rparr>,
         hasDetails = False, responseMessage = None, exception = None, onClose = None,
         isDistructed = False,
         dbSources = [\<lparr>source_id = ''pg1'', driverId = ''postgres''\<rparr>,
                      \<lparr>source_id = ''h2'', driverId = ''h2mem''\<rparr>],
         dbDrivers = [''postgres'' \<mapsto> \<lparr>defaultAuthModel = ''basic'', anonymousAccess = False\<rparr>,
                      ''h2mem'' \<mapsto> \<lparr>defaultAuthModel = ''native'', anonymousAccess = True\<rparr>],
         calls = [AuthModelsLoad ''basic''] \<rparr>"
  by (simp add: onDBSourceSelect_eq onDBSourceSelect_rest_eq loadAuthModel_settled_def
        onConnect_start_def clearError_def getConnectionConfig_def invoke_def and_then_def
        new_controller_def Let_def)

text \<open>
  On a controller that has loaded no auth model yet, the same selection does what the
  claim says: no auth model is asked for, and the opener is called with the new
  configuration.
\<close>

lemma anonymous_on_unset_authModel:
  assumes "find (\<lambda>x. source_id x = sourceId) (dbSources s) = Some src"
    and "dbDrivers s (driverId src) = Some d"
    and "anonymousAccess d"
    and "authModel s = None"
  shows "onDBSourceSelect load sourceId s =
     Inr (s\<lparr>dbSource := Some src, isConnecting := True, authModel := None,
            responseMessage := None, hasDetails := False, exception := None,
            config := (config s)\<lparr>dataSourceId := Some sourceId,
                                   authModelId := Some (defaultAuthModel d),
                                   credentials := Map.empty\<rparr>,
            step := Step_Connection,
            calls := calls s @
              [OpenConnectionAsync
                 \<lparr>dataSourceId = Some sourceId, authModelId = Some (defaultAuthModel d),
                  credentials = Map.empty, otherFields = Map.empty\<rparr>]\<rparr>)"
proof -
  from assms(1) have "source_id src = sourceId"
    by (rule find_source_id)
  with assms show ?thesis
    by (simp add: onDBSourceSelect_eq onDBSourceSelect_rest_eq onConnect_start_def
          clearError_def getConnectionConfig_def invoke_def Let_def)
qed

subsection \<open>An id that no loaded source has\<close>

text \<open>
  Claim C2: selecting an id that is absent from the loaded sources fails hard. It does
  not: with the single source pg1 loaded, selecting the id nope finds no source, and the
  promise of \<^verbatim>\<open>onDBSourceSelect\<close> resolves (the result is not a thrown value).
\<close>

theorem C2_absent_source_counterexample:
  "find (\<lambda>d. source_id d = ''nope'') [\<lparr>source_id = ''pg1'', driverId = ''postgres''\<rparr>] = None \<and>
   \<not> isl (onDBSourceSelect (\<lambda>m. Inr (DatabaseAuthModel m)) ''nope''
        (new_controller [\<lparr>source_id = ''pg1'', driverId = ''postgres''\<rparr>]
           [''postgres'' \<mapsto> \<lparr>defaultAuthModel = ''basic'', anonymousAccess = False\<rparr>]))"
  by (simp add: onDBSourceSelect_eq onDBSourceSelect_rest_eq new_controller_def Let_def)

text \<open>
  Claim C2, as amended: for every id that no loaded source has, the selection completes
  normally; it leaves \<open>dbSource\<close> undefined and the step at Connection.
\<close>

theorem C2_absent_source_completes:
  assumes "find (\<lambda>d. source_id d = sourceId) (dbSources s) = None"
  shows "\<exists>s'. onDBSourceSelect load sourceId s = Inr s' \<and> dbSource s' = None \<and>
           step s' = Step_Connection"
proof (cases "authModel s")
  case None
  with assms show ?thesis
    by (simp add: onDBSourceSelect_eq onDBSourceSelect_rest_eq onConnect_start_frame Let_def)
next
  case (Some a)
  with assms show ?thesis
    by (simp add: onDBSourceSelect_eq onDBSourceSelect_rest_eq Let_def)
qed

theorem C2_absent_source_completes_witness:
  "find (\<lambda>d. source_id d = ''nope'')
     (dbSources (new_controller [\<lparr>source_id = ''pg1'', driverId = ''postgres''\<rparr>]
        [''postgres'' \<mapsto> \<lparr>defaultAuthModel = ''basic'', anonymousAccess = False\<rparr>])) = None \<and>
   (\<exists>s'. onDBSourceSelect (\<lambda>m. Inr (DatabaseAuthModel m)) ''nope''
        (new_controller [\<lparr>source_id = ''pg1'', driverId = ''postgres''\<rparr>]
           [''postgres'' \<mapsto> \<lparr>defaultAuthModel = ''basic'', anonymousAccess = False\<rparr>]) = Inr s' \<and>
      dbSource s' = None \<and> step s' = Step_Connection)"
proof -
  have h: "find (\<lambda>d. source_id d = ''nope'')
     (dbSources (new_controller [\<lparr>source_id = ''pg1'', driverId = ''postgres''\<rparr>]
        [''postgres'' \<mapsto> \<lparr>defaultAuthModel = ''basic'', anonymousAccess = False\<rparr>])) = None"
    by (simp add: new_controller_def)
  from h C2_absent_source_completes [OF h] show ?thesis
    by blast
qed

text \<open>
  Claim C10: for every id that no loaded source has, \<^verbatim>\<open>onDBSourceSelect\<close> completes
  without an error. It sets \<open>dbSource\<close> to undefined, asks for no auth model (the
  calls gain no \<open>AuthModelsLoad\<close>), clears the error, sets the three properties of
  \<open>config\<close> to undefined, undefined and the empty map, moves to the step Connection,
  and, when \<open>authModel\<close> is unset, runs \<^verbatim>\<open>onConnect\<close>: the opener receives the
  configuration whose ids are undefined. The other properties of \<open>config\<close>, if any,
  stay in the object and are not passed on.
\<close>

theorem C10_absent_source_post_state:
  assumes "find (\<lambda>d. source_id d = sourceId) (dbSources s) = None"
  shows "onDBSourceSelect load sourceId s =
     Inr (let s1 = s\<lparr>dbSource := None, responseMessage := None, hasDetails := False,
                     exception := None,
                     config := (config s)\<lparr>dataSourceId := None, authModelId := None,
                                            credentials := Map.empty\<rparr>,
                     step := Step_Connection\<rparr>
          in if authModel s = None
             then s1\<lparr>isConnecting := True,
                      calls := calls s @
                        [OpenConnectionAsync
                           \<lparr>dataSourceId = None, authModelId = None, credentials = Map.empty,
                            otherFields = Map.empty\<rparr>]\<rparr>
             else s1)"
  using assms
  by (simp add: onDBSourceSelect_eq onDBSourceSelect_rest_eq onConnect_start_def clearError_def
        getConnectionConfig_def invoke_def Let_def)

theorem C10_absent_source_post_state_witness:
  "find (\<lambda>d. source_id d = ''nope'')
     (dbSources (new_controller [\<lparr>source_id = ''pg1'', driverId = ''postgres''\<rparr>]
        [''postgres'' \<mapsto> \<lparr>defaultAuthModel = ''basic'', anonymousAccess = False\<rparr>])) = None \<and>
   onDBSourceSelect (\<lambda>m. Inr (DatabaseAuthModel m)) ''nope''
     (new_controller [\<lparr>source_id = ''pg1'', driverId = ''postgres''\<rparr>]
        [''postgres'' \<mapsto> \<lparr>defaultAuthModel = ''basic'', anonymousAccess = False\<rparr>]) =
   Inr \<lparr> step = Step_Connection, isLoading = True, isConnecting = True, dbSource = None,
         authModel = None,
         config = \<lparr> dataSourceId = None, authModelId = None, credentials = Map.empty,
                    otherFields = Map.empty \<rparr>,
         hasDetails = False, responseMessage = None, exception = None, onClose = None,
         isDistructed = False,
         dbSources = [\<lparr>source_id = ''pg1'', driverId = ''postgres''\<rparr>],
         dbDrivers = [''postgres'' \<mapsto> \<lparr>defaultAuthModel = ''basic'', anonymousAccess = False\<rparr>],
         calls = [OpenConnectionAsync
                    \<lparr> dataSourceId = None, authModelId = None, credentials = Map.empty,
                      otherFields = Map.empty \<rparr>] \<rparr>"
proof -
  have h: "find (\<lambda>d. source_id d = ''nope'')
     (dbSources (new_controller [\<lparr>source_id = ''pg1'', driverId = ''postgres''\<rparr>]
        [''postgres'' \<mapsto> \<lparr>defaultAuthModel = ''basic'', anonymousAccess = False\<rparr>])) = None"
    by (simp add: new_controller_def)
  show ?thesis
    using h C10_absent_source_post_state [OF h, of "\<lambda>m. Inr (DatabaseAuthModel m)"]
    by (simp add: new_controller_def)
qed

subsection \<open>A source whose driver requires authentication\<close>

text \<open>
  Claim C3: selecting a loaded source whose driver requires authentication always loads
  the auth model into \<open>authModel\<close> and stops at the step Connection without calling
  \<^verbatim>\<open>onConnect\<close>. When the auth-model resource throws, it does neither: selecting
  pg1 (driver postgres, default auth model basic) with a resource that fails leaves
  \<open>authModel\<close> unset, logs the exception, and then calls the opener.
\<close>

theorem C3_load_failure_counterexample:
  "onDBSourceSelect (\<lambda>m. Inl (OtherError ''network'')) ''pg1''
     (new_controller [\<lparr>source_id = ''pg1'', driverId = ''postgres''\<rparr>]
        [''postgres'' \<mapsto> \<lparr>defaultAuthModel = ''basic'', anonymousAccess = False\<rparr>]) =
   Inr \<lparr> step = Step_Connection, isLoading = False, isConnecting = True,
         dbSource = Some \<lparr>source_id = ''pg1'', driverId = ''postgres''\<rparr>,
         authModel = None,
         config = \<lparr> dataSourceId = Some ''pg1'', authModelId = Some ''basic'',
                    credentials = Map.empty, otherFields = Map.empty \<rparr>,
         hasDetails = False, responseMessage = None, exception = None, onClose = None,
         isDistructed = False,
         dbSources = [\<lparr>source_id = ''pg1'', driverId = ''postgres''\<rparr>],
         dbDrivers = [''postgres'' \<mapsto> \<lparr>defaultAuthModel = ''basic'', anonymousAccess = False\<rparr>],
         calls = [AuthModelsLoad ''basic'',
                  LogException (OtherError ''network'') ''Can't load driver auth model'',
                  OpenConnectionAsync \<lparr> dataSourceId = Some ''pg1'', authModelId = Some ''basic'',
                    credentials = Map.empty, otherFields = Map.empty \<rparr>] \<rparr>"
  by (simp add: onDBSourceSelect_eq onDBSourceSelect_rest_eq loadAuthModel_settled_def
        onConnect_start_def clearError_def getConnectionConfig_def invoke_def
        new_controller_def Let_def)

text \<open>
  Claim C3, as amended: when the source is loaded, its driver requires authentication and
  the auth-model resource answers with a model for the driver's default auth model id,
  the selection stores that model in \<open>authModel\<close>, sets the ids of \<open>config\<close> to the
  source and the default auth model, empties the credentials, and stops at the step
  Connection: the only call made is the load of the auth model, and \<open>isConnecting\<close> is
  as before. The witness is the selection of pg1 with driver postgres and auth model
  basic on a new controller.
\<close>

theorem C3_auth_required_loads_and_waits:
  assumes "find (\<lambda>x. source_id x = sourceId) (dbSources s) = Some src"
    and "dbDrivers s (driverId src) = Some d"
    and "\<not> anonymousAccess d"
    and "load (defaultAuthModel d) = Inr m"
  shows "onDBSourceSelect load sourceId s =
     Inr (s\<lparr>dbSource := Some src, isLoading := False, authModel := Some m,
            responseMessage := None, hasDetails := False, exception := None,
            config := (config s)\<lparr>dataSourceId := Some sourceId,
                                   authModelId := Some (defaultAuthModel d),
                                   credentials := Map.empty\<rparr>,
            step := Step_Connection,
            calls := calls s @ [AuthModelsLoad (defaultAuthModel d)]\<rparr>)"
proof -
  from assms(1) have "source_id src = sourceId"
    by (rule find_source_id)
  with assms show ?thesis
    by (simp add: onDBSourceSelect_eq onDBSourceSelect_rest_eq loadAuthModel_settled_def
          invoke_def Let_def)
qed

theorem C3_pg1_witness:
  "find (\<lambda>x. source_id x = ''pg1'') [\<lparr>source_id = ''pg1'', driverId = ''postgres''\<rparr>] =
     Some \<lparr>source_id = ''pg1'', driverId = ''postgres''\<rparr> \<and>
   [''postgres'' \<mapsto> \<lparr>defaultAuthModel = ''basic'', anonymousAccess = False\<rparr>] ''postgres'' =
     Some \<lparr>defaultAuthModel = ''basic'', anonymousAccess = False\<rparr> \<and>
   onDBSourceSelect (\<lambda>m. Inr (DatabaseAuthModel m)) ''pg1''
     (new_controller [\<lparr>source_id = ''pg1'', driverId = ''postgres''\<rparr>]
        [''postgres'' \<mapsto> \<lparr>defaultAuthModel = ''basic'', anonymousAccess = False\<rparr>]) =
   Inr \<lparr> step = Step_Connection, isLoading = False, isConnecting = False,
         dbSource = Some \<lparr>source_id = ''pg1'', driverId = ''postgres''\<rparr>,
         authModel = Some (DatabaseAuthModel ''basic''),
         config = \<lparr> dataSourceId = Some ''pg1'', authModelId = Some ''basic'',
                    credentials = Map.empty, otherFields = Map.empty \<rparr>,
         hasDetails = False, responseMessage = None, exception = None, onClose = None,
         isDistructed = False,
         dbSources = [\<lparr>source_id = ''pg1'', driverId = ''postgres''\<rparr>],
         dbDrivers = [''postgres'' \<mapsto> \<lparr>defaultAuthModel = ''basic'', anonymousAccess = False\<rparr>],
         calls = [AuthModelsLoad ''basic''] \<rparr>"
  using C3_auth_required_loads_and_waits
    [of "''pg1''"
        "new_controller [\<lparr>source_id = ''pg1'', driverId = ''postgres''\<rparr>]
           [''postgres'' \<mapsto> \<lparr>defaultAuthModel = ''basic'', anonymousAccess = False\<rparr>]"
        "\<lparr>source_id = ''pg1'', driverId = ''postgres''\<rparr>"
        "\<lparr>defaultAuthModel = ''basic'', anonymousAccess = False\<rparr>"
        "\<lambda>m. Inr (DatabaseAuthModel m)" "DatabaseAuthModel ''basic''"]
  by (simp add: new_controller_def)

subsection \<open>What every selection leaves in the configuration\<close>

text \<open>
  Claim C6: right after every completed \<^verbatim>\<open>onDBSourceSelect\<close>, whatever the state
  before (also with credentials entered or left by an earlier selection), the credentials
  of \<open>config\<close> are the empty map, \<open>dataSourceId\<close> is the id of the selected source
  and \<open>authModelId\<close> is the default auth model id of that source's driver. The selected
  source is the one \<^verbatim>\<open>find\<close> returns for the id; an id or a driver that is not loaded
  gives undefined, as the optional chaining does.
\<close>

theorem C6_selection_resets_config:
  "\<exists>s'. onDBSourceSelect load sourceId s = Inr s' \<and>
     credentials (config s') = Map.empty \<and>
     dbSource s' = find (\<lambda>x. source_id x = sourceId) (dbSources s) \<and>
     dataSourceId (config s') = map_option (\<lambda>src. sourceId) (dbSource s') \<and>
     authModelId (config s') =
       map_option defaultAuthModel
         (Option.bind (dbSource s') (\<lambda>src. dbDrivers s (driverId src)))"
proof -
  obtain x where x: "onDBSourceSelect load sourceId s = onDBSourceSelect_rest x"
    "dbSource x = find (\<lambda>d. source_id d = sourceId) (dbSources s)"
    "dbDrivers x = dbDrivers s" "config x = config s"
    using onDBSourceSelect_as_rest by blast
  obtain s' where s': "onDBSourceSelect_rest x = Inr s'" "dbSource s' = dbSource x"
    "config s' = (config x)
       \<lparr>dataSourceId := map_option source_id (dbSource x),
        authModelId := map_option defaultAuthModel
          (Option.bind (dbSource x) (\<lambda>src. dbDrivers x (driverId src))),
        credentials := Map.empty\<rparr>"
    using onDBSourceSelect_rest_config by blast
  have r: "onDBSourceSelect load sourceId s = Inr s'"
    using x(1) s'(1) by simp
  have c: "credentials (config s') = Map.empty"
    by (simp add: s'(3))
  have d: "dbSource s' = find (\<lambda>x. source_id x = sourceId) (dbSources s)"
    using x(2) s'(2) by simp
  have "map_option source_id (dbSource x) = map_option (\<lambda>src. sourceId) (dbSource x)"
  proof (cases "dbSource x")
    case None
    then show ?thesis by simp
  next
    case (Some src)
    with x(2) have "find (\<lambda>d. source_id d = sourceId) (dbSources s) = Some src"
      by simp
    then have "source_id src = sourceId"
      by (rule find_source_id)
    with Some show ?thesis by simp
  qed
  then have i: "dataSourceId (config s') = map_option (\<lambda>src. sourceId) (dbSource s')"
    by (simp add: s'(3) s'(2))
  have a: "authModelId (config s') =
       map_option defaultAuthModel
         (Option.bind (dbSource s') (\<lambda>src. dbDrivers s (driverId src)))"
    by (simp add: s'(3) s'(2) x(3))
  from r c d i a show ?thesis by blast
qed

text \<open>
  An instance: the configuration holds the ids and the credentials of an earlier
  selection of pg1; after the selection of h2 the credentials are empty and the ids are
  those of h2 and of its driver.
\<close>

theorem C6_selection_resets_config_witness:
  "\<exists>s'. onDBSourceSelect (\<lambda>m. Inr (DatabaseAuthModel m)) ''h2''
       ((new_controller [\<lparr>source_id = ''h2'', driverId = ''h2mem''\<rparr>]
           [''h2mem'' \<mapsto> \<lparr>defaultAuthModel = ''native'', anonymousAccess = True\<rparr>])
        \<lparr>config := \<lparr>dataSourceId = Some ''pg1'', authModelId = Some ''basic'',
                       credentials = [''user'' \<mapsto> ''alice'', ''password'' \<mapsto> ''secret''],
                       otherFields = Map.empty\<rparr>\<rparr>) = Inr s' \<and>
     credentials (config s') = Map.empty \<and>
     dataSourceId (config s') = Some ''h2'' \<and>
     authModelId (config s') = Some ''native''"
proof -
  let ?s = "(new_controller [\<lparr>source_id = ''h2'', driverId = ''h2mem''\<rparr>]
           [''h2mem'' \<mapsto> \<lparr>defaultAuthModel = ''native'', anonymousAccess = True\<rparr>])
        \<lparr>config := \<lparr>dataSourceId = Some ''pg1'', authModelId = Some ''basic'',
                       credentials = [''user'' \<mapsto> ''alice'', ''password'' \<mapsto> ''secret''],
                       otherFields = Map.empty\<rparr>\<rparr>"
  obtain s' where s': "onDBSourceSelect (\<lambda>m. Inr (DatabaseAuthModel m)) ''h2'' ?s = Inr s'"
    "credentials (config s') = Map.empty"
    "dbSource s' = find (\<lambda>x. source_id x = ''h2'') (dbSources ?s)"
    "dataSourceId (config s') = map_option (\<lambda>src. ''h2'') (dbSource s')"
    "authModelId (config s') =
       map_option defaultAuthModel
         (Option.bind (dbSource s') (\<lambda>src. dbDrivers ?s (driverId src)))"
    using C6_selection_resets_config [of "\<lambda>m. Inr (DatabaseAuthModel m)" "''h2''" ?s]
    by blast
  have src: "dbSource s' = Some \<lparr>source_id = ''h2'', driverId = ''h2mem''\<rparr>"
    by (simp add: s'(3) new_controller_def)
  have "dataSourceId (config s') = Some ''h2''"
    by (simp add: s'(4) src)
  moreover have "authModelId (config s') = Some ''native''"
    by (simp add: s'(5) src new_controller_def)
  ultimately show ?thesis
    using s'(1) s'(2) by blast
qed

section \<open>The loaded auth model\<close>

text \<open>
  Claim C5: once \<open>authModel\<close> is set, nothing resets it to undefined. Whatever handlers
  run afterwards, in any order (\<open>run\<close>), \<open>authModel\<close> is still set;
  \<^verbatim>\<open>setDBSourceDefaults\<close> leaves the very model in place; and a whole
  \<^verbatim>\<open>onDBSourceSelect\<close> of any id empties the credentials but keeps the model it
  found, unless the new driver requires authentication and its own model loads (then
  that one replaces it). So the test \<^verbatim>\<open>!this.authModel\<close> never sees an unset
  field and \<^verbatim>\<open>onConnect\<close> is not called: the opener has been called as often as
  before and \<open>isConnecting\<close> is unchanged.
\<close>

theorem C5_authModel_never_reset:
  assumes "authModel s = Some m"
  shows "(\<exists>s'. run evs s = Inr s' \<and> authModel s' \<noteq> None) \<and>
         (\<exists>s'. setDBSourceDefaults s = Inr s' \<and> authModel s' = Some m) \<and>
         (\<exists>s'. onDBSourceSelect load sourceId s = Inr s' \<and>
               authModel s' =
                 (case Option.bind (find (\<lambda>x. source_id x = sourceId) (dbSources s))
                         (\<lambda>src. dbDrivers s (driverId src)) of
                    None \<Rightarrow> Some m
                  | Some d \<Rightarrow>
                      if anonymousAccess d then Some m
                      else (case load (defaultAuthModel d) of
                              Inr m' \<Rightarrow> Some m'
                            | Inl e \<Rightarrow> Some m)) \<and>
               credentials (config s') = Map.empty \<and>
               isConnecting s' = isConnecting s \<and> opened s' = opened s)"
proof -
  have 1: "\<exists>s'. run evs s = Inr s' \<and> authModel s' \<noteq> None"
    using run_fields [of evs s] assms by auto
  have 2: "\<exists>s'. setDBSourceDefaults s = Inr s' \<and> authModel s' = Some m"
    using assms by (simp add: setDBSourceDefaults_eq)
  have 3: "\<exists>s'. onDBSourceSelect load sourceId s = Inr s' \<and>
               authModel s' =
                 (case Option.bind (find (\<lambda>x. source_id x = sourceId) (dbSources s))
                         (\<lambda>src. dbDrivers s (driverId src)) of
                    None \<Rightarrow> Some m
                  | Some d \<Rightarrow>
                      if anonymousAccess d then Some m
                      else (case load (defaultAuthModel d) of
                              Inr m' \<Rightarrow> Some m'
                            | Inl e \<Rightarrow> Some m)) \<and>
               credentials (config s') = Map.empty \<and>
               isConnecting s' = isConnecting s \<and> opened s' = opened s"
    using assms
    by (simp add: onDBSourceSelect_eq onDBSourceSelect_rest_eq loadAuthModel_settled_def
          invoke_def opened_def Let_def split: option.splits sum.splits)
  from 1 2 3 show ?thesis by blast
qed

text \<open>
  An instance: a controller that holds the auth model basic; the user selects the
  anonymous source h2, goes back a step, connects, and the dialog is destructed.
\<close>

theorem C5_authModel_never_reset_witness:
  "authModel
     ((new_controller [\<lparr>source_id = ''h2'', driverId = ''h2mem''\<rparr>]
         [''h2mem'' \<mapsto> \<lparr>defaultAuthModel = ''native'', anonymousAccess = True\<rparr>])
      \<lparr>authModel := Some (DatabaseAuthModel ''basic'')\<rparr>) =
     Some (DatabaseAuthModel ''basic'') \<and>
   (\<exists>s'. run [OnDBSourceSelect ''h2'', OnStep Step_DBSource, OnConnect, Destruct]
        ((new_controller [\<lparr>source_id = ''h2'', driverId = ''h2mem''\<rparr>]
            [''h2mem'' \<mapsto> \<lparr>defaultAuthModel = ''native'', anonymousAccess = True\<rparr>])
         \<lparr>authModel := Some (DatabaseAuthModel ''basic'')\<rparr>) = Inr s' \<and>
      authModel s' \<noteq> None) \<and>
   (\<exists>s'. onDBSourceSelect (\<lambda>m. Inr (DatabaseAuthModel m)) ''h2''
        ((new_controller [\<lparr>source_id = ''h2'', driverId = ''h2mem''\<rparr>]
            [''h2mem'' \<mapsto> \<lparr>defaultAuthModel = ''native'', anonymousAccess = True\<rparr>])
         \<lparr>authModel := Some (DatabaseAuthModel ''basic'')\<rparr>) = Inr s' \<and>
      authModel s' = Some (DatabaseAuthModel ''basic'') \<and>
      opened s' =
        opened ((new_controller [\<lparr>source_id = ''h2'', driverId = ''h2mem''\<rparr>]
            [''h2mem'' \<mapsto> \<lparr>defaultAuthModel = ''native'', anonymousAccess = True\<rparr>])
         \<lparr>authModel := Some (DatabaseAuthModel ''basic'')\<rparr>))"
proof -
  let ?s = "(new_controller [\<lparr>source_id = ''h2'', driverId = ''h2mem''\<rparr>]
         [''h2mem'' \<mapsto> \<lparr>defaultAuthModel = ''native'', anonymousAccess = True\<rparr>])
      \<lparr>authModel := Some (DatabaseAuthModel ''basic'')\<rparr>"
  have h: "authModel ?s = Some (DatabaseAuthModel ''basic'')"
    by simp
  have d: "Option.bind (find (\<lambda>x. source_id x = ''h2'') (dbSources ?s))
             (\<lambda>src. dbDrivers ?s (driverId src)) =
           Some \<lparr>defaultAuthModel = ''native'', anonymousAccess = True\<rparr>"
    by (simp add: new_controller_def)
  note c5 = C5_authModel_never_reset
    [OF h, of "[OnDBSourceSelect ''h2'', OnStep Step_DBSource, OnConnect, Destruct]"
       "\<lambda>m. Inr (DatabaseAuthModel m)" "''h2''"]
  from c5 have r: "\<exists>s'. run [OnDBSourceSelect ''h2'', OnStep Step_DBSource, OnConnect, Destruct] ?s
       = Inr s' \<and> authModel s' \<noteq> None"
    by (rule conjunct1)
  from c5 obtain s' where s':
    "onDBSourceSelect (\<lambda>m. Inr (DatabaseAuthModel m)) ''h2'' ?s = Inr s'"
    "authModel s' =
       (case Option.bind (find (\<lambda>x. source_id x = ''h2'') (dbSources ?s))
               (\<lambda>src. dbDrivers ?s (driverId src)) of
          None \<Rightarrow> Some (DatabaseAuthModel ''basic'')
        | Some d \<Rightarrow>
            if anonymousAccess d then Some (DatabaseAuthModel ''basic'')
            else (case Inr (DatabaseAuthModel (defaultAuthModel d)) of
                    Inr m' \<Rightarrow> Some m'
                  | Inl (e :: thrown) \<Rightarrow> Some (DatabaseAuthModel ''basic'')))"
    "opened s' = opened ?s"
    by blast
  have "authModel s' = Some (DatabaseAuthModel ''basic'')"
    unfolding s'(2) d by simp
  with s'(1) s'(3) have "\<exists>s'. onDBSourceSelect (\<lambda>m. Inr (DatabaseAuthModel m)) ''h2'' ?s = Inr s' \<and>
      authModel s' = Some (DatabaseAuthModel ''basic'') \<and> opened s' = opened ?s"
    by blast
  with h r show ?thesis
    by blast
qed

section \<open>Errors\<close>

subsection \<open>After \<^verbatim>\<open>destruct\<close>\<close>

text \<open>
  Claim C4: after \<^verbatim>\<open>destruct()\<close>, a failed connect attempt that settles later never
  changes \<open>responseMessage\<close>, \<open>hasDetails\<close> or the held exception. Whatever handlers
  run after \<^verbatim>\<open>destruct\<close> (\<open>run evs\<close>), the flag is still set; then the code after
  the await of a failed \<^verbatim>\<open>onConnect\<close>, and \<^verbatim>\<open>showError\<close> itself, leave the three
  fields as they are, for every thrown value, a \<^verbatim>\<open>GQLError\<close> or not.
\<close>

theorem C4_destructed_error_state_untouched:
  "\<exists>s1. run evs (destruct s) = Inr s1 \<and> isDistructed s1 \<and>
     responseMessage (onConnect_settled (Inl e) s1) = responseMessage s1 \<and>
     hasDetails (onConnect_settled (Inl e) s1) = hasDetails s1 \<and>
     exception (onConnect_settled (Inl e) s1) = exception s1 \<and>
     responseMessage (showError e message s1) = responseMessage s1 \<and>
     hasDetails (showError e message s1) = hasDetails s1 \<and>
     exception (showError e message s1) = exception s1"
proof -
  have d: "isDistructed (destruct s)"
    by (simp add: destruct_def)
  obtain s1 where s1: "run evs (destruct s) = Inr s1" "isDistructed s1"
    using run_fields [of evs "destruct s"] d by blast
  have "responseMessage (showError x msg s1) = responseMessage s1 \<and>
        hasDetails (showError x msg s1) = hasDetails s1 \<and>
        exception (showError x msg s1) = exception s1" for x msg
    using s1(2) by (simp add: showError_def invoke_def split: thrown.splits)
  then show ?thesis
    using s1 by (simp add: onConnect_settled_def)
qed

subsection \<open>A failed connect attempt\<close>

text \<open>
  Claim C7: when the opener throws in \<^verbatim>\<open>onConnect\<close> on a controller that is not
  destructed, a \<^verbatim>\<open>GQLError\<close> sets \<open>responseMessage\<close> to its text and
  \<open>hasDetails\<close> to what its \<^verbatim>\<open>hasDetails()\<close> answers, and is kept:
  \<^verbatim>\<open>onShowDetails\<close> then opens the details dialog with it, and nothing is logged. Any
  other thrown value leaves \<open>responseMessage\<close> null (as the clearing at the start of
  \<^verbatim>\<open>onConnect\<close> made it) and goes to \<^verbatim>\<open>logException\<close> with the message
  "Failed to establish connection". In both cases \<open>isConnecting\<close> is false at the end.
  The last three equations are about the code after the await alone, in whatever state
  the opener's failure finds the controller: only a \<^verbatim>\<open>GQLError\<close> writes the fields.
\<close>

theorem C7_connect_error_routing:
  assumes "\<not> isDistructed s"
    and "opener (getConnectionConfig s) = Inl e"
  shows "(case e of
            GQL g \<Rightarrow>
              responseMessage (onConnect opener s) = Some (errorText g) \<and>
              hasDetails (onConnect opener s) = gql_hasDetails g \<and>
              exception (onConnect opener s) = Some g \<and>
              calls (onConnect opener s) =
                calls s @ [OpenConnectionAsync (getConnectionConfig s)] \<and>
              calls (onShowDetails (onConnect opener s)) =
                calls (onConnect opener s) @ [OpenErrorDetailsDialog g]
          | _ \<Rightarrow>
              responseMessage (onConnect opener s) = None \<and>
              hasDetails (onConnect opener s) = False \<and>
              exception (onConnect opener s) = None \<and>
              calls (onConnect opener s) =
                calls s @ [OpenConnectionAsync (getConnectionConfig s),
                           LogException e ''Failed to establish connection'']) \<and>
         isConnecting (onConnect opener s) = False \<and>
         responseMessage (onConnect_settled (Inl e) s) =
           (case e of GQL g \<Rightarrow> Some (errorText g) | _ \<Rightarrow> responseMessage s) \<and>
         hasDetails (onConnect_settled (Inl e) s) =
           (case e of GQL g \<Rightarrow> gql_hasDetails g | _ \<Rightarrow> hasDetails s) \<and>
         exception (onConnect_settled (Inl e) s) =
           (case e of GQL g \<Rightarrow> Some g | _ \<Rightarrow> exception s)"
proof -
  have cfg: "getConnectionConfig (onConnect_start s) = getConnectionConfig s"
    by (simp add: getConnectionConfig_def onConnect_start_fields)
  have st: "onConnect opener s =
      (showError e ''Failed to establish connection'' (onConnect_start s))
        \<lparr>isConnecting := False\<rparr>"
    using assms(2) by (simp add: onConnect_def Let_def cfg onConnect_settled_def)
  have whole: "(case e of
            GQL g \<Rightarrow>
              responseMessage (onConnect opener s) = Some (errorText g) \<and>
              hasDetails (onConnect opener s) = gql_hasDetails g \<and>
              exception (onConnect opener s) = Some g \<and>
              calls (onConnect opener s) =
                calls s @ [OpenConnectionAsync (getConnectionConfig s)] \<and>
              calls (onShowDetails (onConnect opener s)) =
                calls (onConnect opener s) @ [OpenErrorDetailsDialog g]
          | _ \<Rightarrow>
              responseMessage (onConnect opener s) = None \<and>
              hasDetails (onConnect opener s) = False \<and>
              exception (onConnect opener s) = None \<and>
              calls (onConnect opener s) =
                calls s @ [OpenConnectionAsync (getConnectionConfig s),
                           LogException e ''Failed to establish connection'']) \<and>
         isConnecting (onConnect opener s) = False"
    using assms(1)
    by (cases e)
       (simp_all add: st showError_def onConnect_start_def clearError_def invoke_def
          getConnectionConfig_def onShowDetails_def Let_def)
  have later: "responseMessage (onConnect_settled (Inl e) s) =
           (case e of GQL g \<Rightarrow> Some (errorText g) | _ \<Rightarrow> responseMessage s) \<and>
         hasDetails (onConnect_settled (Inl e) s) =
           (case e of GQL g \<Rightarrow> gql_hasDetails g | _ \<Rightarrow> hasDetails s) \<and>
         exception (onConnect_settled (Inl e) s) =
           (case e of GQL g \<Rightarrow> Some g | _ \<Rightarrow> exception s)"
    using assms(1)
    by (cases e) (simp_all add: onConnect_settled_def showError_def invoke_def)
  from whole later show ?thesis by blast
qed

text \<open>
  Two instances on a new controller: an opener that throws a \<^verbatim>\<open>GQLError\<close> with the
  text "Access denied" and details, and an opener that throws another error.
\<close>

theorem C7_connect_error_routing_witness:
  "\<not> isDistructed (new_controller [] Map.empty) \<and>
   responseMessage
     (onConnect (\<lambda>c. Inl (GQL \<lparr>errorText = ''Access denied'', gql_hasDetails = True\<rparr>))
        (new_controller [] Map.empty)) = Some ''Access denied'' \<and>
   hasDetails
     (onConnect (\<lambda>c. Inl (GQL \<lparr>errorText = ''Access denied'', gql_hasDetails = True\<rparr>))
        (new_controller [] Map.empty)) = True \<and>
   exception
     (onConnect (\<lambda>c. Inl (GQL \<lparr>errorText = ''Access denied'', gql_hasDetails = True\<rparr>))
        (new_controller [] Map.empty)) =
     Some \<lparr>errorText = ''Access denied'', gql_hasDetails = True\<rparr> \<and>
   responseMessage
     (onConnect (\<lambda>c. Inl (OtherError ''timeout'')) (new_controller [] Map.empty)) = None \<and>
   calls (onConnect (\<lambda>c. Inl (OtherError ''timeout'')) (new_controller [] Map.empty)) =
     [OpenConnectionAsync
        \<lparr>dataSourceId = None, authModelId = None, credentials = Map.empty,
         otherFields = Map.empty\<rparr>,
      LogException (OtherError ''timeout'') ''Failed to establish connection'']"
proof -
  have n: "\<not> isDistructed (new_controller [] Map.empty)"
    by (simp add: new_controller_def)
  have g: "(\<lambda>c. Inl (GQL \<lparr>errorText = ''Access denied'', gql_hasDetails = True\<rparr>))
             (getConnectionConfig (new_controller [] Map.empty)) =
           (Inl (GQL \<lparr>errorText = ''Access denied'', gql_hasDetails = True\<rparr>)
              :: thrown + ConnectionInfo)"
    by simp
  have o: "(\<lambda>c. Inl (OtherError ''timeout''))
             (getConnectionConfig (new_controller [] Map.empty)) =
           (Inl (OtherError ''timeout'') :: thrown + ConnectionInfo)"
    by simp
  have c: "getConnectionConfig (new_controller [] Map.empty) =
      \<lparr>dataSourceId = None, authModelId = None, credentials = Map.empty,
       otherFields = Map.empty\<rparr>"
    by (simp add: getConnectionConfig_def new_controller_def)
  have e: "calls (new_controller [] Map.empty) = []"
    by (simp add: new_controller_def)
  from n C7_connect_error_routing [OF n g] C7_connect_error_routing [OF n o] c e
  show ?thesis by simp
qed

subsection \<open>Failed loads\<close>

text \<open>
  Claim C8: an error while the lists are loaded first (the sources, or the drivers after
  the sources) or while the auth model is loaded is only passed to
  \<^verbatim>\<open>logException\<close>; \<open>responseMessage\<close>, \<open>hasDetails\<close> and the held exception
  are not set from it, whatever the thrown value \<open>e\<close> is, also a \<^verbatim>\<open>GQLError\<close>.
  \<^verbatim>\<open>loadDBSources\<close> and the code after the await of \<^verbatim>\<open>loadAuthModel\<close> leave the
  three fields as they were and add the one \<^verbatim>\<open>logException\<close> call; the selection
  that goes on after a failed auth-model load ends with the three fields cleared.
\<close>

theorem C8_load_errors_only_logged:
  "responseMessage (loadDBSources (Inl e) r2 s) = responseMessage s \<and>
   hasDetails (loadDBSources (Inl e) r2 s) = hasDetails s \<and>
   exception (loadDBSources (Inl e) r2 s) = exception s \<and>
   calls (loadDBSources (Inl e) r2 s) =
     calls s @ [SourcesLoadAll, LogException e ''Can't load database sources''] \<and>
   responseMessage (loadDBSources (Inr srcs) (Inl e) s) = responseMessage s \<and>
   hasDetails (loadDBSources (Inr srcs) (Inl e) s) = hasDetails s \<and>
   exception (loadDBSources (Inr srcs) (Inl e) s) = exception s \<and>
   calls (loadDBSources (Inr srcs) (Inl e) s) =
     calls s @ [SourcesLoadAll, DriversLoadAll,
                LogException e ''Can't load database sources''] \<and>
   responseMessage (loadAuthModel_settled (Inl e) s) = responseMessage s \<and>
   hasDetails (loadAuthModel_settled (Inl e) s) = hasDetails s \<and>
   exception (loadAuthModel_settled (Inl e) s) = exception s \<and>
   authModel (loadAuthModel_settled (Inl e) s) = authModel s \<and>
   calls (loadAuthModel_settled (Inl e) s) =
     calls s @ [LogException e ''Can't load driver auth model''] \<and>
   (\<exists>s'. onDBSourceSelect_resumed (Inl e) s = Inr s' \<and> responseMessage s' = None \<and>
      hasDetails s' = False \<and> exception s' = None)"
proof -
  have lists: "responseMessage (loadDBSources (Inl e) r2 s) = responseMessage s \<and>
      hasDetails (loadDBSources (Inl e) r2 s) = hasDetails s \<and>
      exception (loadDBSources (Inl e) r2 s) = exception s \<and>
      calls (loadDBSources (Inl e) r2 s) =
        calls s @ [SourcesLoadAll, LogException e ''Can't load database sources''] \<and>
      responseMessage (loadDBSources (Inr srcs) (Inl e) s) = responseMessage s \<and>
      hasDetails (loadDBSources (Inr srcs) (Inl e) s) = hasDetails s \<and>
      exception (loadDBSources (Inr srcs) (Inl e) s) = exception s \<and>
      calls (loadDBSources (Inr srcs) (Inl e) s) =
        calls s @ [SourcesLoadAll, DriversLoadAll,
                   LogException e ''Can't load database sources'']"
    by (simp add: loadDBSources_def loadDBSources_start_def loadDBSources_sources_def
          loadDBSources_drivers_def invoke_def)
  have model: "responseMessage (loadAuthModel_settled (Inl e) s) = responseMessage s \<and>
      hasDetails (loadAuthModel_settled (Inl e) s) = hasDetails s \<and>
      exception (loadAuthModel_settled (Inl e) s) = exception s \<and>
      authModel (loadAuthModel_settled (Inl e) s) = authModel s \<and>
      calls (loadAuthModel_settled (Inl e) s) =
        calls s @ [LogException e ''Can't load driver auth model'']"
    by (simp add: loadAuthModel_settled_def invoke_def)
  have resumed: "\<exists>s'. onDBSourceSelect_resumed (Inl e) s = Inr s' \<and>
      responseMessage s' = None \<and> hasDetails s' = False \<and> exception s' = None"
  proof (cases "authModel (loadAuthModel_settled (Inl e) s)")
    case None
    then show ?thesis
      by (simp add: onDBSourceSelect_resumed_def onDBSourceSelect_rest_eq Let_def
            onConnect_start_def clearError_def invoke_def)
  next
    case (Some a)
    then show ?thesis
      by (simp add: onDBSourceSelect_resumed_def onDBSourceSelect_rest_eq Let_def)
  qed
  from lists model resumed show ?thesis by blast
qed

section \<open>The configuration passed to the connection opener\<close>

text \<open>
  Claim C9: in every state \<^verbatim>\<open>getConnectionConfig()\<close> returns an object with the
  \<open>dataSourceId\<close>, \<open>authModelId\<close> and \<open>credentials\<close> of the current \<open>config\<close>,
  with their current values, and with no other property: \<open>otherFields\<close> is empty whatever
  \<open>config\<close> carries. A configuration of only the three properties comes back unchanged.
  It is this object that \<^verbatim>\<open>onConnect\<close> passes to the opener.
\<close>

theorem C9_getConnectionConfig_three_fields:
  "dataSourceId (getConnectionConfig s) = dataSourceId (config s) \<and>
   authModelId (getConnectionConfig s) = authModelId (config s) \<and>
   credentials (getConnectionConfig s) = credentials (config s) \<and>
   otherFields (getConnectionConfig s) = Map.empty \<and>
   getConnectionConfig
     (s\<lparr>config := \<lparr>dataSourceId = d, authModelId = a, credentials = c,
                     otherFields = Map.empty\<rparr>\<rparr>) =
     \<lparr>dataSourceId = d, authModelId = a, credentials = c, otherFields = Map.empty\<rparr> \<and>
   calls (onConnect_start s) = calls s @ [OpenConnectionAsync (getConnectionConfig s)]"
  by (simp add: getConnectionConfig_def onConnect_start_fields)

end
